theory Spec2Isabelle
  imports Complex_Main "HOL-Library.AList"
begin

section \<open>The ExpenseLM tool server (expenselm\_mcp\_server.py)\<close>

text \<open>
  The program is a set of six tool functions. Each one builds the parameters of one HTTP GET,
  attaches a header with the API key read from the environment, sends the request with
  httpx, decodes the body as JSON and validates the decoded value against a pydantic model.

  The embedding keeps the Python names. What the program takes from outside (the process
  environment, the remote server, the JSON decoders and Python's float conversions) is a
  record of functions, \<open>runtime\<close>, that every definition receives: a theorem holds for every
  such record. Python's \<open>float\<close> is the type variable \<open>'f\<close>.
\<close>

subsection \<open>Python values\<close>

text \<open>
  What \<open>Response.json()\<close> returns: \<open>None\<close>, a \<open>bool\<close>, an \<open>int\<close> (unbounded), a
  \<open>float\<close>, a \<open>str\<close>, a \<open>list\<close> or a \<open>dict\<close> with string keys. A dict is the list of its
  items in insertion order (its keys are distinct), read with \<open>map_of\<close>.
\<close>

datatype 'f json =
    JNull
  | JBool bool
  | JInt int
  | JFloat 'f
  | JStr string
  | JArr "'f json list"
  | JObj "(string \<times> 'f json) list"

text \<open>
  The value of a field annotated \<open>float\<close>. Validation always stores a float; a default is
  stored as it is written in \<open>Field(0, ...)\<close>, the int \<open>0\<close> (pydantic does not validate
  defaults).
\<close>

datatype 'f number = PyInt int | PyFloat 'f

subsection \<open>Errors\<close>

text \<open>
  One entry of a pydantic \<open>ValidationError\<close>: the location (field names and list indices
  from the root) and the error type.
\<close>

datatype loc_item = Key string | Index nat

type_synonym line_error = "loc_item list \<times> string"

text \<open>
  The exceptions that leave a tool function. \<open>HTTPStatusError\<close> is the exception of httpx
  that carries a response with a non-success status; only \<open>Response.raise_for_status\<close>
  raises it.
\<close>

datatype error =
    ValueError string
  | TransportError string
  | JSONDecodeError
  | ValidationError "line_error list"
  | HTTPStatusError nat string

subsection \<open>The domain model\<close>

datatype ExpenseImageType = Receipt | Invoice | Others

datatype ExpenseType = Standard | Subscription

record ExpenseImage =
  image_type :: ExpenseImageType
  image_file_name :: string

record 'f ExpenseItem =
  name :: string
  quantity :: "'f number"
  unit_price :: "'f number"
  subtotal :: "'f number"

record 'f Expense =
  shop_name :: string
  shop_address :: string
  date :: string
  expense_category :: string
  currency :: string
  total_amount :: "'f number"
  items :: "'f ExpenseItem list"
  expense_type :: ExpenseType
  remark :: string

record 'f ExpenseImageData =
  image_field :: "ExpenseImage option"
  expense :: "'f Expense option"

record 'f ExpenseRecord = "'f ExpenseImageData" +
  id_field :: string

record 'f MonthCurAmtStatItem =
  month :: string
  month_currency :: string
  month_total_amount :: "'f number"

record 'f CategoryCurAmtStatItem =
  category :: string
  category_currency :: string
  category_total_amount :: "'f number"

record 'f SubscriptionCurAmtStatItem =
  subscription :: string
  subscription_currency :: string
  subscription_total_amount :: "'f number"

subsection \<open>The outside world\<close>

datatype qvalue = QInt int | QStr string

record request =
  url :: string
  headers :: "(string \<times> string) list"
  params :: "(string \<times> qvalue) list option"

record response =
  status_code :: nat
  body :: string

text \<open>
  \<^item> \<open>environ\<close>: the process environment (\<open>os.getenv\<close>);
  \<^item> \<open>remote\<close>: what \<open>AsyncClient.get\<close> does with a request: a response, or the cause of a
    transport failure (connection refused, timeout after 60 seconds);
  \<^item> \<open>json_loads\<close>: the decoder behind \<open>Response.json()\<close>, \<open>None\<close> where it raises;
  \<^item> \<open>from_json\<close>: the decoder behind \<open>model_validate_json\<close>, \<open>None\<close> where it fails;
  \<^item> \<open>float_of_int\<close>: Python's int to float conversion, \<open>None\<close> on overflow;
  \<^item> \<open>float_of_str\<close>: the float a string denotes, \<open>None\<close> when it denotes none.
\<close>

record 'f runtime =
  environ :: "string \<rightharpoonup> string"
  remote :: "request \<Rightarrow> string + response"
  json_loads :: "string \<Rightarrow> 'f json option"
  from_json :: "string \<Rightarrow> 'f json option"
  float_of_int :: "int \<Rightarrow> 'f option"
  float_of_str :: "string \<Rightarrow> 'f option"

subsection \<open>pydantic validation (lax mode, unknown keys ignored)\<close>

text \<open>
  A validator returns the validated value or the list of all its line errors. \<open>ap\<close>
  applies a constructor to one more validated field and keeps the errors of every field,
  in the order of the fields.
\<close>

type_synonym 'a validated = "line_error list + 'a"

definition ap :: "('a \<Rightarrow> 'b) validated \<Rightarrow> 'a validated \<Rightarrow> 'b validated" where
  "ap rf rx =
     (case rf of
        Inl es \<Rightarrow> (case rx of Inl es' \<Rightarrow> Inl (es @ es') | Inr x \<Rightarrow> Inl es)
      | Inr f \<Rightarrow> (case rx of Inl es' \<Rightarrow> Inl es' | Inr x \<Rightarrow> Inr (f x)))"

definition at_loc :: "loc_item \<Rightarrow> 'a validated \<Rightarrow> 'a validated" where
  "at_loc l r =
     (case r of Inl es \<Rightarrow> Inl (map (\<lambda>(p, t). (l # p, t)) es) | Inr x \<Rightarrow> Inr x)"

definition str_validator :: "'f json \<Rightarrow> string validated" where
  "str_validator v =
     (case v of JStr s \<Rightarrow> Inr s | _ \<Rightarrow> Inl [([], ''string_type'')])"

definition float_validator :: "'f runtime \<Rightarrow> 'f json \<Rightarrow> 'f number validated" where
  "float_validator w v =
     (case v of
        JFloat x \<Rightarrow> Inr (PyFloat x)
      | JInt n \<Rightarrow>
          (case float_of_int w n of
             Some x \<Rightarrow> Inr (PyFloat x)
           | None \<Rightarrow> Inl [([], ''float_type'')])
      | JBool b \<Rightarrow>
          (case float_of_int w (if b then 1 else 0) of
             Some x \<Rightarrow> Inr (PyFloat x)
           | None \<Rightarrow> Inl [([], ''float_type'')])
      | JStr s \<Rightarrow>
          (case float_of_str w s of
             Some x \<Rightarrow> Inr (PyFloat x)
           | None \<Rightarrow> Inl [([], ''float_parsing'')])
      | _ \<Rightarrow> Inl [([], ''float_type'')])"

definition ExpenseImageType_validator :: "'f json \<Rightarrow> ExpenseImageType validated" where
  "ExpenseImageType_validator v =
     (case v of
        JStr s \<Rightarrow>
          (if s = ''Receipt'' then Inr Receipt
           else if s = ''Invoice'' then Inr Invoice
           else if s = ''Others'' then Inr Others
           else Inl [([], ''enum'')])
      | _ \<Rightarrow> Inl [([], ''enum'')])"

definition ExpenseType_validator :: "'f json \<Rightarrow> ExpenseType validated" where
  "ExpenseType_validator v =
     (case v of
        JStr s \<Rightarrow>
          (if s = ''Standard'' then Inr Standard
           else if s = ''Subscription'' then Inr Subscription
           else Inl [([], ''enum'')])
      | _ \<Rightarrow> Inl [([], ''enum'')])"

text \<open>\<open>Optional[T]\<close>: \<open>None\<close> is accepted, anything else goes to the validator of \<open>T\<close>.\<close>

definition nullable :: "('f json \<Rightarrow> 'a validated) \<Rightarrow> 'f json \<Rightarrow> 'a option validated" where
  "nullable f v =
     (case v of
        JNull \<Rightarrow> Inr None
      | _ \<Rightarrow> (case f v of Inl es \<Rightarrow> Inl es | Inr x \<Rightarrow> Inr (Some x)))"

text \<open>\<open>list[T]\<close>: every item is validated, the errors of all items are kept.\<close>

fun validate_items :: "('f json \<Rightarrow> 'a validated) \<Rightarrow> nat \<Rightarrow> 'f json list \<Rightarrow> 'a list validated" where
  "validate_items f i [] = Inr []"
| "validate_items f i (x # xs) =
     ap (ap (Inr (#)) (at_loc (Index i) (f x))) (validate_items f (Suc i) xs)"

definition list_validator :: "('f json \<Rightarrow> 'a validated) \<Rightarrow> 'f json \<Rightarrow> 'a list validated" where
  "list_validator f v =
     (case v of JArr xs \<Rightarrow> validate_items f 0 xs | _ \<Rightarrow> Inl [([], ''list_type'')])"

text \<open>A field declared \<open>Field(...)\<close> is required; a field with a default takes it when its key is absent.\<close>

definition required_field ::
  "(string \<times> 'f json) list \<Rightarrow> string \<Rightarrow> ('f json \<Rightarrow> 'a validated) \<Rightarrow> 'a validated" where
  "required_field kvs k f =
     (case map_of kvs k of
        None \<Rightarrow> Inl [([Key k], ''missing'')]
      | Some v \<Rightarrow> at_loc (Key k) (f v))"

definition default_field ::
  "(string \<times> 'f json) list \<Rightarrow> string \<Rightarrow> 'a \<Rightarrow> ('f json \<Rightarrow> 'a validated) \<Rightarrow> 'a validated" where
  "default_field kvs k d f =
     (case map_of kvs k of
        None \<Rightarrow> Inr d
      | Some v \<Rightarrow> at_loc (Key k) (f v))"

definition validate_ExpenseImage :: "'f json \<Rightarrow> ExpenseImage validated" where
  "validate_ExpenseImage v =
     (case v of
        JObj kvs \<Rightarrow>
          ap (ap (Inr (\<lambda>t n. \<lparr>image_type = t, image_file_name = n\<rparr>))
                (required_field kvs ''image_type'' ExpenseImageType_validator))
             (required_field kvs ''image_file_name'' str_validator)
      | _ \<Rightarrow> Inl [([], ''model_type'')])"

definition validate_ExpenseItem :: "'f runtime \<Rightarrow> 'f json \<Rightarrow> 'f ExpenseItem validated" where
  "validate_ExpenseItem w v =
     (case v of
        JObj kvs \<Rightarrow>
          ap (ap (ap (ap (Inr (\<lambda>n q u s.
                  \<lparr>name = n, quantity = q, unit_price = u, subtotal = s\<rparr>))
                (default_field kvs ''name'' '''' str_validator))
                (default_field kvs ''quantity'' (PyInt 0) (float_validator w)))
                (default_field kvs ''unit_price'' (PyInt 0) (float_validator w)))
             (default_field kvs ''subtotal'' (PyInt 0) (float_validator w))
      | _ \<Rightarrow> Inl [([], ''model_type'')])"

definition validate_Expense :: "'f runtime \<Rightarrow> 'f json \<Rightarrow> 'f Expense validated" where
  "validate_Expense w v =
     (case v of
        JObj kvs \<Rightarrow>
          ap (ap (ap (ap (ap (ap (ap (ap (ap (Inr (\<lambda>sn sa d ec c ta its et r.
                  \<lparr>shop_name = sn, shop_address = sa, date = d, expense_category = ec,
                   currency = c, total_amount = ta, items = its, expense_type = et,
                   remark = r\<rparr>))
                (default_field kvs ''shop_name'' '''' str_validator))
                (default_field kvs ''shop_address'' '''' str_validator))
                (default_field kvs ''date'' '''' str_validator))
                (default_field kvs ''expense_category'' ''Misc'' str_validator))
                (default_field kvs ''currency'' '''' str_validator))
                (default_field kvs ''total_amount'' (PyInt 0) (float_validator w)))
                (default_field kvs ''items'' [] (list_validator (validate_ExpenseItem w))))
                (default_field kvs ''expense_type'' Standard ExpenseType_validator))
             (default_field kvs ''remark'' '''' str_validator)
      | _ \<Rightarrow> Inl [([], ''model_type'')])"

definition validate_ExpenseImageData :: "'f runtime \<Rightarrow> 'f json \<Rightarrow> 'f ExpenseImageData validated" where
  "validate_ExpenseImageData w v =
     (case v of
        JObj kvs \<Rightarrow>
          ap (ap (Inr (\<lambda>i e. \<lparr>image_field = i, expense = e\<rparr>))
                (default_field kvs ''image'' None (nullable validate_ExpenseImage)))
             (default_field kvs ''expense'' None (nullable (validate_Expense w)))
      | _ \<Rightarrow> Inl [([], ''model_type'')])"

definition validate_ExpenseRecord :: "'f runtime \<Rightarrow> 'f json \<Rightarrow> 'f ExpenseRecord validated" where
  "validate_ExpenseRecord w v =
     (case v of
        JObj kvs \<Rightarrow>
          ap (ap (ap (Inr (\<lambda>i e r. \<lparr>image_field = i, expense = e, id_field = r\<rparr>))
                (default_field kvs ''image'' None (nullable validate_ExpenseImage)))
                (default_field kvs ''expense'' None (nullable (validate_Expense w))))
             (required_field kvs ''id'' str_validator)
      | _ \<Rightarrow> Inl [([], ''model_type'')])"

definition validate_MonthCurAmtStatItem ::
  "'f runtime \<Rightarrow> 'f json \<Rightarrow> 'f MonthCurAmtStatItem validated" where
  "validate_MonthCurAmtStatItem w v =
     (case v of
        JObj kvs \<Rightarrow>
          ap (ap (ap (Inr (\<lambda>m c t.
                  \<lparr>month = m, month_currency = c, month_total_amount = t\<rparr>))
                (required_field kvs ''month'' str_validator))
                (required_field kvs ''currency'' str_validator))
             (required_field kvs ''total_amount'' (float_validator w))
      | _ \<Rightarrow> Inl [([], ''model_type'')])"

definition validate_CategoryCurAmtStatItem ::
  "'f runtime \<Rightarrow> 'f json \<Rightarrow> 'f CategoryCurAmtStatItem validated" where
  "validate_CategoryCurAmtStatItem w v =
     (case v of
        JObj kvs \<Rightarrow>
          ap (ap (ap (Inr (\<lambda>m c t.
                  \<lparr>category = m, category_currency = c, category_total_amount = t\<rparr>))
                (required_field kvs ''category'' str_validator))
                (required_field kvs ''currency'' str_validator))
             (required_field kvs ''total_amount'' (float_validator w))
      | _ \<Rightarrow> Inl [([], ''model_type'')])"

definition validate_SubscriptionCurAmtStatItem ::
  "'f runtime \<Rightarrow> 'f json \<Rightarrow> 'f SubscriptionCurAmtStatItem validated" where
  "validate_SubscriptionCurAmtStatItem w v =
     (case v of
        JObj kvs \<Rightarrow>
          ap (ap (ap (Inr (\<lambda>m c t.
                  \<lparr>subscription = m, subscription_currency = c,
                   subscription_total_amount = t\<rparr>))
                (required_field kvs ''subscription'' str_validator))
                (required_field kvs ''currency'' str_validator))
             (required_field kvs ''total_amount'' (float_validator w))
      | _ \<Rightarrow> Inl [([], ''model_type'')])"

text \<open>
  The fields \<open>currency\<close> and \<open>total_amount\<close> of the three statistics items carry the item's
  name as a prefix in the records above (a record field is a constant of the theory); the
  keys read from the payload are the source's.
\<close>

text \<open>
  \<open>TypeAdapter(list[T]).validate_python\<close> and \<open>Model.model_validate_json\<close>: the line errors
  leave as one \<open>ValidationError\<close>. \<open>model_validate_json\<close> takes JSON text (\<open>str\<close>, \<open>bytes\<close>
  or \<open>bytearray\<close>); any other Python value is the error \<open>json_type\<close>, and text that is not
  JSON is the error \<open>json_invalid\<close>.
\<close>

definition raise_validation :: "'a validated \<Rightarrow> error + 'a" where
  "raise_validation r = (case r of Inl es \<Rightarrow> Inl (ValidationError es) | Inr x \<Rightarrow> Inr x)"

definition validate_python ::
  "('f json \<Rightarrow> 'a validated) \<Rightarrow> 'f json \<Rightarrow> error + 'a list" where
  "validate_python f v = raise_validation (list_validator f v)"

definition model_validate_json ::
  "'f runtime \<Rightarrow> ('f json \<Rightarrow> 'a validated) \<Rightarrow> 'f json \<Rightarrow> error + 'a" where
  "model_validate_json w f v =
     (case v of
        JStr s \<Rightarrow>
          (case from_json w s of
             None \<Rightarrow> Inl (ValidationError [([], ''json_invalid'')])
           | Some j \<Rightarrow> raise_validation (f j))
      | _ \<Rightarrow> Inl (ValidationError [([], ''json_type'')]))"

text \<open>
  The request model of the source. No tool function constructs it. Its constructor, on
  arguments of the annotated types (\<open>'d\<close> is \<open>datetime.date\<close>): \<open>limit\<close> must be greater
  than 0 and at most 100, \<open>text_input\<close> when given has at least 2 characters.
\<close>

definition ExpenseSearchRequest ::
  "int \<Rightarrow> int \<Rightarrow> string option \<Rightarrow> 'd option \<Rightarrow> 'd option \<Rightarrow>
   (int \<times> int \<times> string option \<times> 'd option \<times> 'd option) validated" where
  "ExpenseSearchRequest skip limit text_input from_date to_date =
     ap (ap (ap (ap (ap (Inr (\<lambda>s l t f d. (s, l, t, f, d)))
          (Inr skip))
          (if \<not> 0 < limit then Inl [([Key ''limit''], ''greater_than'')]
           else if \<not> limit \<le> 100 then Inl [([Key ''limit''], ''less_than_equal'')]
           else Inr limit))
          (case text_input of
             None \<Rightarrow> Inr None
           | Some s \<Rightarrow>
               if length s < 2 then Inl [([Key ''text_input''], ''string_too_short'')]
               else Inr (Some s)))
          (Inr from_date))
          (Inr to_date)"

subsection \<open>The tool gateway\<close>

definition EXPENSELM_API_ENDPOINT :: string where
  "EXPENSELM_API_ENDPOINT = ''https://api.expenselm.ai''"

definition get_api_key :: "'f runtime \<Rightarrow> error + string" where
  "get_api_key w =
     (case environ w ''EXPENSELM_API_KEY'' of
        None \<Rightarrow> Inl (ValueError ''EXPENSELM_API_KEY is not set'')
      | Some key \<Rightarrow> Inr key)"

definition get_headers :: "'f runtime \<Rightarrow> error + (string \<times> string) list" where
  "get_headers w =
     (case get_api_key w of
        Inl e \<Rightarrow> Inl e
      | Inr key \<Rightarrow> Inr [(''EXPENSELM_API_KEY'', key)])"

text \<open>
  A tool function returns the requests it has sent, in order, and its outcome.
  \<open>client_get\<close> is \<open>await client.get(api_endpoint, headers=..., params=...)\<close>: the arguments
  are evaluated first, the header last of them, so a failure of \<open>get_headers\<close> leaves before
  the call; the call sends one request. \<open>response_json\<close> is \<open>r.json()\<close>.
\<close>

type_synonym 'a outcome = "request list \<times> (error + 'a)"

definition client_get ::
  "'f runtime \<Rightarrow> string \<Rightarrow> (string \<times> qvalue) list option \<Rightarrow> response outcome" where
  "client_get w api_endpoint search_params =
     (case get_headers w of
        Inl e \<Rightarrow> ([], Inl e)
      | Inr hs \<Rightarrow>
          (let req = \<lparr>url = api_endpoint, headers = hs, params = search_params\<rparr>
           in ([req],
               case remote w req of
                 Inl cause \<Rightarrow> Inl (TransportError cause)
               | Inr r \<Rightarrow> Inr r)))"

definition response_json :: "'f runtime \<Rightarrow> response \<Rightarrow> error + 'f json" where
  "response_json w r =
     (case json_loads w (body r) of None \<Rightarrow> Inl JSONDecodeError | Some j \<Rightarrow> Inr j)"

text \<open>\<open>if v: d[k] = v\<close> for an optional string: \<open>None\<close> and the empty string are falsy.\<close>

definition set_if_truthy ::
  "string \<Rightarrow> string option \<Rightarrow> (string \<times> qvalue) list \<Rightarrow> (string \<times> qvalue) list" where
  "set_if_truthy k v d =
     (case v of
        None \<Rightarrow> d
      | Some s \<Rightarrow> if s = [] then d else AList.update k (QStr s) d)"

definition get_latest_expenses ::
  "'f runtime \<Rightarrow> int \<Rightarrow> int \<Rightarrow> string option \<Rightarrow> string option \<Rightarrow> string option \<Rightarrow>
   'f ExpenseRecord list outcome" where
  "get_latest_expenses w skip limit from_date to_date text_input =
     (let api_endpoint = EXPENSELM_API_ENDPOINT @ ''/expenses/'';
          search_params = [(''skip'', QInt skip), (''limit'', QInt limit)];
          search_params = set_if_truthy ''from_date'' from_date search_params;
          search_params = set_if_truthy ''to_date'' to_date search_params;
          search_params = set_if_truthy ''text_input'' text_input search_params
      in case client_get w api_endpoint (Some search_params) of
           (sent, Inl e) \<Rightarrow> (sent, Inl e)
         | (sent, Inr r) \<Rightarrow>
             (sent,
              case response_json w r of
                Inl e \<Rightarrow> Inl e
              | Inr j \<Rightarrow> validate_python (validate_ExpenseRecord w) j))"

definition get_expense_by_id :: "'f runtime \<Rightarrow> string \<Rightarrow> 'f ExpenseImageData outcome" where
  "get_expense_by_id w expense_id =
     (let api_endpoint = EXPENSELM_API_ENDPOINT @ ''/expenses/'' @ expense_id
      in case client_get w api_endpoint None of
           (sent, Inl e) \<Rightarrow> (sent, Inl e)
         | (sent, Inr r) \<Rightarrow>
             (sent,
              case response_json w r of
                Inl e \<Rightarrow> Inl e
              | Inr j \<Rightarrow> model_validate_json w (validate_ExpenseImageData w) j))"

definition get_latest_subscription_expenses ::
  "'f runtime \<Rightarrow> int \<Rightarrow> int \<Rightarrow> string option \<Rightarrow> string option \<Rightarrow> string option \<Rightarrow>
   'f ExpenseRecord list outcome" where
  "get_latest_subscription_expenses w skip limit from_date to_date text_input =
     (let api_endpoint = EXPENSELM_API_ENDPOINT @ ''/subscriptions/'';
          search_params = [(''skip'', QInt skip), (''limit'', QInt limit)];
          search_params = set_if_truthy ''from_date'' from_date search_params;
          search_params = set_if_truthy ''to_date'' to_date search_params;
          search_params = set_if_truthy ''text_input'' text_input search_params
      in case client_get w api_endpoint (Some search_params) of
           (sent, Inl e) \<Rightarrow> (sent, Inl e)
         | (sent, Inr r) \<Rightarrow>
             (sent,
              case response_json w r of
                Inl e \<Rightarrow> Inl e
              | Inr j \<Rightarrow> validate_python (validate_ExpenseRecord w) j))"

definition get_expense_summary_by_month_by_currency ::
  "'f runtime \<Rightarrow> string \<Rightarrow> string \<Rightarrow> 'f MonthCurAmtStatItem list outcome" where
  "get_expense_summary_by_month_by_currency w from_date to_date =
     (let api_endpoint = EXPENSELM_API_ENDPOINT @ ''/stats/summary-by-month-by-currency'';
          search_params = [(''from_date'', QStr from_date), (''to_date'', QStr to_date)]
      in case client_get w api_endpoint (Some search_params) of
           (sent, Inl e) \<Rightarrow> (sent, Inl e)
         | (sent, Inr r) \<Rightarrow>
             (sent,
              case response_json w r of
                Inl e \<Rightarrow> Inl e
              | Inr j \<Rightarrow> validate_python (validate_MonthCurAmtStatItem w) j))"

definition get_expense_summary_by_category_by_currency ::
  "'f runtime \<Rightarrow> string \<Rightarrow> string \<Rightarrow> 'f CategoryCurAmtStatItem list outcome" where
  "get_expense_summary_by_category_by_currency w from_date to_date =
     (let api_endpoint = EXPENSELM_API_ENDPOINT @ ''/stats/summary-by-category-by-currency'';
          search_params = [(''from_date'', QStr from_date), (''to_date'', QStr to_date)]
      in case client_get w api_endpoint (Some search_params) of
           (sent, Inl e) \<Rightarrow> (sent, Inl e)
         | (sent, Inr r) \<Rightarrow>
             (sent,
              case response_json w r of
                Inl e \<Rightarrow> Inl e
              | Inr j \<Rightarrow> validate_python (validate_CategoryCurAmtStatItem w) j))"

definition get_expense_summary_by_subscription_by_currency ::
  "'f runtime \<Rightarrow> string \<Rightarrow> string \<Rightarrow> 'f SubscriptionCurAmtStatItem list outcome" where
  "get_expense_summary_by_subscription_by_currency w from_date to_date =
     (let api_endpoint =
            EXPENSELM_API_ENDPOINT @ ''/stats/summary-by-subscription-by-currency'';
          search_params = [(''from_date'', QStr from_date), (''to_date'', QStr to_date)]
      in case client_get w api_endpoint (Some search_params) of
           (sent, Inl e) \<Rightarrow> (sent, Inl e)
         | (sent, Inr r) \<Rightarrow>
             (sent,
              case response_json w r of
                Inl e \<Rightarrow> Inl e
              | Inr j \<Rightarrow> validate_python (validate_SubscriptionCurAmtStatItem w) j))"

subsection \<open>Concrete worlds and auxiliary notions\<close>

text \<open>
  A concrete runtime for the closed examples: the API key is \<open>key\<close> (unset when \<open>None\<close>),
  the remote answers every request with the response \<open>r\<close>, floats are real numbers, and the
  two JSON decoders know the three bodies the examples use.
\<close>

definition sample_loads :: \<open>string \<Rightarrow> real json option\<close> where
  \<open>sample_loads s =
     (if s = ''[]'' then Some (JArr [])
      else if s = ''{}'' then Some (JObj [])
      else if s = ''{"detail":"Not Found"}''
        then Some (JObj [(''detail'', JStr ''Not Found'')])
      else None)\<close>

definition sample_runtime :: "string option \<Rightarrow> response \<Rightarrow> real runtime" where
  "sample_runtime key r =
     \<lparr>environ = (\<lambda>k. if k = ''EXPENSELM_API_KEY'' then key else None),
      remote = (\<lambda>req. Inr r),
      json_loads = sample_loads,
      from_json = sample_loads,
      float_of_int = (\<lambda>n. Some (real_of_int n)),
      float_of_str = (\<lambda>s. None)\<rparr>"

text \<open>The runtime \<open>w\<close> with the status code of every response replaced by \<open>s\<close>.\<close>

definition with_status :: "nat \<Rightarrow> 'f runtime \<Rightarrow> 'f runtime" where
  "with_status s w =
     w\<lparr>remote := (\<lambda>req. case remote w req of
                            Inl cause \<Rightarrow> Inl cause
                          | Inr r \<Rightarrow> Inr (r\<lparr>status_code := s\<rparr>))\<rparr>"

text \<open>The line errors of a validation result, and a line error moved under a location.\<close>

definition errs :: "'a validated \<Rightarrow> line_error set" where
  "errs r = (case r of Inl es \<Rightarrow> set es | Inr x \<Rightarrow> {})"

definition under :: "loc_item \<Rightarrow> line_error \<Rightarrow> line_error" where
  "under l e = (l # fst e, snd e)"

text \<open>The value of a member of \<open>ExpenseType\<close>, as the enum declares it.\<close>

definition ExpenseType_value :: "ExpenseType \<Rightarrow> string" where
  "ExpenseType_value t =
     (case t of Standard \<Rightarrow> ''Standard'' | Subscription \<Rightarrow> ''Subscription'')"

text \<open>
  A JSON object that matches the \<open>ExpenseItem\<close> schema exactly, for a name and three floats,
  and the \<open>ExpenseItem\<close> with the same field values.
\<close>

definition ExpenseItem_payload :: "string \<times> 'f \<times> 'f \<times> 'f \<Rightarrow> 'f json" where
  "ExpenseItem_payload it =
     (case it of (n, q, u, s) \<Rightarrow>
        JObj [(''name'', JStr n), (''quantity'', JFloat q), (''unit_price'', JFloat u),
              (''subtotal'', JFloat s)])"

definition ExpenseItem_of :: "string \<times> 'f \<times> 'f \<times> 'f \<Rightarrow> 'f ExpenseItem" where
  "ExpenseItem_of it =
     (case it of (n, q, u, s) \<Rightarrow>
        \<lparr>name = n, quantity = PyFloat q, unit_price = PyFloat u, subtotal = PyFloat s\<rparr>)"

text \<open>
  The dict \<open>search_params\<close> of \<open>get_latest_expenses\<close> and
  \<open>get_latest_subscription_expenses\<close> when the request is sent.
\<close>

definition search_query ::
  "int \<Rightarrow> int \<Rightarrow> string option \<Rightarrow> string option \<Rightarrow> string option \<Rightarrow>
   (string \<times> qvalue) list" where
  "search_query skip limit from_date to_date text_input =
     set_if_truthy ''text_input'' text_input
       (set_if_truthy ''to_date'' to_date
         (set_if_truthy ''from_date'' from_date
           [(''skip'', QInt skip), (''limit'', QInt limit)]))"

section \<open>Properties\<close>

subsection \<open>Validation results\<close>

lemma ap_Inr [simp]: "ap (Inr f) (Inr x) = Inr (f x)"
  by (simp add: ap_def)

lemma at_loc_Inr [simp]: "at_loc l (Inr x) = Inr x"
  by (simp add: at_loc_def)

lemma errs_Inr [simp]: "errs (Inr x) = {}"
  by (simp add: errs_def)

lemma errs_Inl [simp]: "errs (Inl es) = set es"
  by (simp add: errs_def)

lemma errs_ap [simp]: "errs (ap rf rx) = errs rf \<union> errs rx"
  by (simp add: ap_def errs_def split: sum.splits)

lemma errs_at_loc [simp]: "errs (at_loc l r) = under l ` errs r"
  by (cases r) (simp_all add: at_loc_def under_def case_prod_unfold)

lemma errs_raised: "e \<in> errs r \<Longrightarrow> \<exists>es. r = Inl es \<and> e \<in> set es"
  by (cases r) simp_all

text \<open>An error of the item at index \<open>k\<close> is an error of the list, under that index.\<close>

lemma errs_validate_items:
  "k < length xs \<Longrightarrow> e \<in> errs (f (xs ! k)) \<Longrightarrow>
   under (Index (i + k)) e \<in> errs (validate_items f i xs)"
proof (induction xs arbitrary: i k)
  case Nil
  then show ?case by simp
next
  case (Cons x xs)
  show ?case
  proof (cases k)
    case 0
    with Cons.prems show ?thesis by simp
  next
    case (Suc m)
    with Cons.prems have "under (Index (Suc i + m)) e \<in> errs (validate_items f (Suc i) xs)"
      by (intro Cons.IH) simp_all
    with Suc show ?thesis by simp
  qed
qed

lemma errs_default_field:
  "map_of kvs k = Some v \<Longrightarrow> errs (default_field kvs k d f) = under (Key k) ` errs (f v)"
  by (simp add: default_field_def)

lemma default_field_absent [simp]: "map_of kvs k = None \<Longrightarrow> default_field kvs k d f = Inr d"
  by (simp add: default_field_def)

lemma errs_nullable_obj: "errs (nullable f (JObj kvs)) = errs (f (JObj kvs))"
  by (simp add: nullable_def errs_def split: sum.splits)

subsection \<open>An invalid enum literal fails the whole batch\<close>

lemma enum_error:
  "s \<noteq> ''Standard'' \<Longrightarrow> s \<noteq> ''Subscription'' \<Longrightarrow>
   ([], ''enum'') \<in> errs (ExpenseType_validator (JStr s))"
  by (simp add: ExpenseType_validator_def)

lemma Expense_enum_error:
  assumes "map_of ekvs ''expense_type'' = Some (JStr s)"
    and "s \<noteq> ''Standard''" and "s \<noteq> ''Subscription''"
  shows "([Key ''expense_type''], ''enum'') \<in> errs (validate_Expense w (JObj ekvs))"
proof -
  have "under (Key ''expense_type'') ([], ''enum'')
          \<in> errs (default_field ekvs ''expense_type'' Standard ExpenseType_validator)"
    using assms by (simp add: errs_default_field enum_error)
  then show ?thesis
    by (simp add: validate_Expense_def under_def)
qed

lemma ExpenseRecord_enum_error:
  assumes "map_of kvs ''expense'' = Some (JObj ekvs)"
    and "map_of ekvs ''expense_type'' = Some (JStr s)"
    and "s \<noteq> ''Standard''" and "s \<noteq> ''Subscription''"
  shows "([Key ''expense'', Key ''expense_type''], ''enum'')
           \<in> errs (validate_ExpenseRecord w (JObj kvs))"
proof -
  have "under (Key ''expense'') ([Key ''expense_type''], ''enum'')
          \<in> errs (default_field kvs ''expense'' None (nullable (validate_Expense w)))"
    using assms by (simp add: errs_default_field errs_nullable_obj Expense_enum_error)
  then show ?thesis
    by (simp add: validate_ExpenseRecord_def under_def)
qed

text \<open>
  Claim C7. When the element at index \<open>i\<close> of a remote JSON array of expense records
  carries, as the \<open>expense_type\<close> of its expense, a string that is neither \<open>Standard\<close> nor
  \<open>Subscription\<close> (for example \<open>Recurring\<close>), the validation of the whole array by
  \<open>TypeAdapter(list[ExpenseRecord]).validate_python\<close> fails with a \<open>ValidationError\<close>
  that reports the error \<open>enum\<close> at the path of that field: no list is returned, whatever
  the other elements are.
\<close>

theorem invalid_expense_type_fails_batch:
  assumes "i < length js"
    and "js ! i = JObj kvs"
    and "map_of kvs ''expense'' = Some (JObj ekvs)"
    and "map_of ekvs ''expense_type'' = Some (JStr s)"
    and "s \<noteq> ''Standard''" and "s \<noteq> ''Subscription''"
  shows "\<exists>es. validate_python (validate_ExpenseRecord w) (JArr js) = Inl (ValidationError es)
            \<and> ([Index i, Key ''expense'', Key ''expense_type''], ''enum'') \<in> set es"
proof -
  have "([Key ''expense'', Key ''expense_type''], ''enum'')
          \<in> errs (validate_ExpenseRecord w (js ! i))"
    using assms by (simp add: ExpenseRecord_enum_error)
  with assms(1)
  have "under (Index (0 + i)) ([Key ''expense'', Key ''expense_type''], ''enum'')
          \<in> errs (validate_items (validate_ExpenseRecord w) 0 js)"
    by (rule errs_validate_items)
  then obtain es where "validate_items (validate_ExpenseRecord w) 0 js = Inl es"
    and "([Index i, Key ''expense'', Key ''expense_type''], ''enum'') \<in> set es"
    by (auto simp add: under_def dest: errs_raised)
  then show ?thesis
    by (simp add: validate_python_def list_validator_def raise_validation_def)
qed

text \<open>
  An array of two records: the first, with the id \<open>r1\<close>, is valid; the second, with the id
  \<open>r2\<close>, has an expense of type \<open>Recurring\<close>. The outcome is the error alone.
\<close>

theorem invalid_expense_type_fails_batch_witness:
  "validate_python
     (validate_ExpenseRecord (sample_runtime None \<lparr>status_code = 200, body = ''[]''\<rparr>))
     (JArr [JObj [(''id'', JStr ''r1'')],
            JObj [(''id'', JStr ''r2''),
                  (''expense'', JObj [(''expense_type'', JStr ''Recurring'')])]])
   = Inl (ValidationError [([Index 1, Key ''expense'', Key ''expense_type''], ''enum'')])"
  using invalid_expense_type_fails_batch
    [of 1 "[JObj [(''id'', JStr ''r1'')],
            JObj [(''id'', JStr ''r2''),
                  (''expense'', JObj [(''expense_type'', JStr ''Recurring'')])]]"
        "[(''id'', JStr ''r2''), (''expense'', JObj [(''expense_type'', JStr ''Recurring'')])]"
        "[(''expense_type'', JStr ''Recurring'')]" "''Recurring''"
        "sample_runtime None \<lparr>status_code = 200, body = ''[]''\<rparr>"]
  by (simp add: validate_python_def list_validator_def raise_validation_def
      validate_ExpenseRecord_def validate_Expense_def default_field_def required_field_def
      nullable_def ap_def at_loc_def str_validator_def ExpenseType_validator_def)

subsection \<open>Validating an expense\<close>

lemma validate_ExpenseItem_payload:
  "validate_ExpenseItem w (ExpenseItem_payload it) = Inr (ExpenseItem_of it)"
  by (cases it)
    (simp add: validate_ExpenseItem_def ExpenseItem_payload_def ExpenseItem_of_def
      default_field_def str_validator_def float_validator_def)

lemma validate_items_payload:
  "validate_items (validate_ExpenseItem w) i (map ExpenseItem_payload l)
     = Inr (map ExpenseItem_of l)"
  by (induction l arbitrary: i) (simp_all add: validate_ExpenseItem_payload)

lemma ExpenseType_validator_value:
  "ExpenseType_validator (JStr (ExpenseType_value t)) = Inr t"
  by (cases t) (simp_all add: ExpenseType_validator_def ExpenseType_value_def)

lemma category_field:
  "map_of kvs ''expense_category'' = map_option JStr ec \<Longrightarrow>
   default_field kvs ''expense_category'' ''Misc'' str_validator
     = Inr (case ec of None \<Rightarrow> ''Misc'' | Some x \<Rightarrow> x)"
  by (cases ec) (simp_all add: default_field_def str_validator_def)

lemma items_field:
  "map_of kvs ''items'' = map_option (\<lambda>l. JArr (map ExpenseItem_payload l)) its \<Longrightarrow>
   default_field kvs ''items'' [] (list_validator (validate_ExpenseItem w))
     = Inr (case its of None \<Rightarrow> [] | Some l \<Rightarrow> map ExpenseItem_of l)"
  by (cases its) (simp_all add: default_field_def list_validator_def validate_items_payload)

text \<open>
  Claim C6. A remote JSON object that matches the \<open>Expense\<close> schema exactly (its string
  fields are strings, \<open>total_amount\<close> is a float, \<open>expense_type\<close> is the value of a member
  of \<open>ExpenseType\<close>, \<open>items\<close> when present is an array of objects matching the
  \<open>ExpenseItem\<close> schema, \<open>expense_category\<close> when present is a string; the order of the
  keys and any further key do not matter) validates to the \<open>Expense\<close> with identical field
  values: the string \<open>Subscription\<close> becomes the member \<open>Subscription\<close>, omitted \<open>items\<close>
  become the empty list and an omitted \<open>expense_category\<close> becomes \<open>Misc\<close>.
\<close>

theorem Expense_round_trip:
  assumes "map_of kvs ''shop_name'' = Some (JStr sn)"
    and "map_of kvs ''shop_address'' = Some (JStr sa)"
    and "map_of kvs ''date'' = Some (JStr d)"
    and "map_of kvs ''expense_category'' = map_option JStr ec"
    and "map_of kvs ''currency'' = Some (JStr c)"
    and "map_of kvs ''total_amount'' = Some (JFloat ta)"
    and "map_of kvs ''items'' = map_option (\<lambda>l. JArr (map ExpenseItem_payload l)) its"
    and "map_of kvs ''expense_type'' = Some (JStr (ExpenseType_value et))"
    and "map_of kvs ''remark'' = Some (JStr r)"
  shows "validate_Expense w (JObj kvs) =
           Inr \<lparr>shop_name = sn, shop_address = sa, date = d,
                expense_category = (case ec of None \<Rightarrow> ''Misc'' | Some x \<Rightarrow> x),
                currency = c, total_amount = PyFloat ta,
                items = (case its of None \<Rightarrow> [] | Some l \<Rightarrow> map ExpenseItem_of l),
                expense_type = et, remark = r\<rparr>"
proof -
  have "default_field kvs ''shop_name'' '''' str_validator = Inr sn"
    and "default_field kvs ''shop_address'' '''' str_validator = Inr sa"
    and "default_field kvs ''date'' '''' str_validator = Inr d"
    and "default_field kvs ''currency'' '''' str_validator = Inr c"
    and "default_field kvs ''remark'' '''' str_validator = Inr r"
    using assms by (simp_all add: default_field_def str_validator_def)
  moreover have "default_field kvs ''total_amount'' (PyInt 0) (float_validator w)
                   = Inr (PyFloat ta)"
    using assms(6) by (simp add: default_field_def float_validator_def)
  moreover have "default_field kvs ''expense_type'' Standard ExpenseType_validator = Inr et"
    using assms(8) by (simp add: default_field_def ExpenseType_validator_value)
  moreover note category_field [OF assms(4)] items_field [OF assms(7), of w]
  ultimately show ?thesis
    by (simp add: validate_Expense_def)
qed

text \<open>
  A subscription of 12.5 USD whose payload has neither \<open>items\<close> nor \<open>expense_category\<close>.
\<close>

theorem Expense_round_trip_witness:
  "validate_Expense (sample_runtime None \<lparr>status_code = 200, body = ''[]''\<rparr>)
     (JObj [(''shop_name'', JStr ''Acme''), (''shop_address'', JStr ''1 Main St''),
            (''date'', JStr ''2024-01-31''), (''currency'', JStr ''USD''),
            (''total_amount'', JFloat 12.5), (''expense_type'', JStr ''Subscription''),
            (''remark'', JStr ''monthly'')])
   = Inr \<lparr>shop_name = ''Acme'', shop_address = ''1 Main St'', date = ''2024-01-31'',
          expense_category = ''Misc'', currency = ''USD'', total_amount = PyFloat 12.5,
          items = [], expense_type = Subscription, remark = ''monthly''\<rparr>"
  using Expense_round_trip
    [of "[(''shop_name'', JStr ''Acme''), (''shop_address'', JStr ''1 Main St''),
          (''date'', JStr ''2024-01-31''), (''currency'', JStr ''USD''),
          (''total_amount'', JFloat 12.5), (''expense_type'', JStr ''Subscription''),
          (''remark'', JStr ''monthly'')]"
        "''Acme''" "''1 Main St''" "''2024-01-31''" None "''USD''" "12.5" None Subscription
        "''monthly''" "sample_runtime None \<lparr>status_code = 200, body = ''[]''\<rparr>"]
  by (simp add: ExpenseType_value_def)

subsection \<open>No field of an expense is required\<close>

lemma ap_Inr_iff: "ap rf rx = Inr y \<longleftrightarrow> (\<exists>f x. rf = Inr f \<and> rx = Inr x \<and> y = f x)"
  by (cases rf; cases rx) (auto simp add: ap_def)

lemma errs_default_field_cases:
  "errs (default_field kvs k d f) =
     (case map_of kvs k of None \<Rightarrow> {} | Some v \<Rightarrow> under (Key k) ` errs (f v))"
  by (simp add: default_field_def split: option.splits)

lemma errs_str_validator: "e \<in> errs (str_validator v) \<Longrightarrow> snd e = ''string_type''"
  by (auto simp add: str_validator_def split: json.splits)

lemma errs_float_validator:
  "e \<in> errs (float_validator w v) \<Longrightarrow> snd e = ''float_type'' \<or> snd e = ''float_parsing''"
  by (auto simp add: float_validator_def split: json.splits option.splits)

lemma errs_ExpenseType_validator: "e \<in> errs (ExpenseType_validator v) \<Longrightarrow> snd e = ''enum''"
  by (auto simp add: ExpenseType_validator_def split: json.splits if_splits)

lemma snd_under [simp]: "snd (under l e) = snd e"
  by (simp add: under_def)

lemma fst_under [simp]: "fst (under l e) = l # fst e"
  by (simp add: under_def)

text \<open>An error of a validated list is an error of one of its items, with the same type.\<close>

lemma errs_validate_items_origin:
  "e \<in> errs (validate_items f i xs) \<Longrightarrow>
   \<exists>x e'. x \<in> set xs \<and> e' \<in> errs (f x) \<and> snd e = snd e'"
proof (induction xs arbitrary: i)
  case Nil
  then show ?case by simp
next
  case (Cons x xs)
  then consider "e \<in> under (Index i) ` errs (f x)" | "e \<in> errs (validate_items f (Suc i) xs)"
    by auto
  then show ?case
  proof cases
    case 1
    then obtain e' where "e' \<in> errs (f x)" and "e = under (Index i) e'"
      by auto
    then show ?thesis
      by (intro exI [of _ x] exI [of _ e']) simp
  next
    case 2
    from Cons.IH [OF this] show ?thesis by auto
  qed
qed

lemma errs_validate_ExpenseItem:
  assumes "e \<in> errs (validate_ExpenseItem w v)"
  shows "snd e \<noteq> ''missing''"
proof (cases v)
  case (JObj kvs)
  with assms show ?thesis
    by (auto simp add: validate_ExpenseItem_def errs_default_field_cases
        split: option.splits dest: errs_str_validator errs_float_validator)
qed (use assms in \<open>simp_all add: validate_ExpenseItem_def\<close>)

lemma errs_items_validator:
  assumes "e \<in> errs (list_validator (validate_ExpenseItem w) v)"
  shows "snd e \<noteq> ''missing''"
proof (cases v)
  case (JArr xs)
  with assms obtain x e' where "e' \<in> errs (validate_ExpenseItem w x)" and "snd e = snd e'"
    by (auto simp add: list_validator_def dest: errs_validate_items_origin)
  then show ?thesis by (simp add: errs_validate_ExpenseItem)
qed (use assms in \<open>simp_all add: list_validator_def\<close>)

text \<open>
  An error of a field with a default lies under the key of the field, and the key is in the
  payload.
\<close>

lemma errs_field_present:
  assumes "e \<in> errs (default_field kvs k d f)"
    and "\<forall>v e'. e' \<in> errs (f v) \<longrightarrow> snd e' \<noteq> ''missing''"
  shows "snd e \<noteq> ''missing'' \<and> (\<exists>rest v. fst e = Key k # rest \<and> map_of kvs k = Some v)"
  using assms by (auto simp add: errs_default_field_cases split: option.splits)

lemma errs_validate_Expense:
  assumes "e \<in> errs (validate_Expense w (JObj kvs))"
  shows "snd e \<noteq> ''missing'' \<and> (\<exists>k rest v. fst e = Key k # rest \<and> map_of kvs k = Some v)"
proof -
  have str: "\<forall>(v :: 'a json) e'. e' \<in> errs (str_validator v) \<longrightarrow> snd e' \<noteq> ''missing''"
    by (auto dest: errs_str_validator)
  have flo: "\<forall>v e'. e' \<in> errs (float_validator w v) \<longrightarrow> snd e' \<noteq> ''missing''"
    by (auto dest: errs_float_validator)
  have enu: "\<forall>(v :: 'a json) e'. e' \<in> errs (ExpenseType_validator v) \<longrightarrow> snd e' \<noteq> ''missing''"
    by (auto dest: errs_ExpenseType_validator)
  have its: "\<forall>v e'. e' \<in> errs (list_validator (validate_ExpenseItem w) v)
               \<longrightarrow> snd e' \<noteq> ''missing''"
    by (auto dest: errs_items_validator)
  from assms consider
      "e \<in> errs (default_field kvs ''shop_name'' '''' str_validator)"
    | "e \<in> errs (default_field kvs ''shop_address'' '''' str_validator)"
    | "e \<in> errs (default_field kvs ''date'' '''' str_validator)"
    | "e \<in> errs (default_field kvs ''expense_category'' ''Misc'' str_validator)"
    | "e \<in> errs (default_field kvs ''currency'' '''' str_validator)"
    | "e \<in> errs (default_field kvs ''total_amount'' (PyInt 0) (float_validator w))"
    | "e \<in> errs (default_field kvs ''items'' [] (list_validator (validate_ExpenseItem w)))"
    | "e \<in> errs (default_field kvs ''expense_type'' Standard ExpenseType_validator)"
    | "e \<in> errs (default_field kvs ''remark'' '''' str_validator)"
    by (auto simp add: validate_Expense_def)
  then show ?thesis
  proof cases
    case 1 from errs_field_present [OF this str] show ?thesis by blast
  next
    case 2 from errs_field_present [OF this str] show ?thesis by blast
  next
    case 3 from errs_field_present [OF this str] show ?thesis by blast
  next
    case 4 from errs_field_present [OF this str] show ?thesis by blast
  next
    case 5 from errs_field_present [OF this str] show ?thesis by blast
  next
    case 6 from errs_field_present [OF this flo] show ?thesis by blast
  next
    case 7 from errs_field_present [OF this its] show ?thesis by blast
  next
    case 8 from errs_field_present [OF this enu] show ?thesis by blast
  next
    case 9 from errs_field_present [OF this str] show ?thesis by blast
  qed
qed

text \<open>A validated expense holds, field by field, the results of the validation of its fields.\<close>

lemma validate_Expense_fields:
  assumes "validate_Expense w (JObj kvs) = Inr e"
  shows "default_field kvs ''shop_name'' '''' str_validator = Inr (shop_name e)"
    and "default_field kvs ''shop_address'' '''' str_validator = Inr (shop_address e)"
    and "default_field kvs ''date'' '''' str_validator = Inr (date e)"
    and "default_field kvs ''expense_category'' ''Misc'' str_validator = Inr (expense_category e)"
    and "default_field kvs ''currency'' '''' str_validator = Inr (currency e)"
    and "default_field kvs ''total_amount'' (PyInt 0) (float_validator w) = Inr (total_amount e)"
    and "default_field kvs ''items'' [] (list_validator (validate_ExpenseItem w)) = Inr (items e)"
    and "default_field kvs ''expense_type'' Standard ExpenseType_validator = Inr (expense_type e)"
    and "default_field kvs ''remark'' '''' str_validator = Inr (remark e)"
  using assms by (auto simp add: validate_Expense_def ap_Inr_iff)

text \<open>
  Claim C9. Every field of \<open>Expense\<close> has a declared default, and no field is ever required
  of the remote payload. For every JSON object, whatever its keys:
  \<^item> when none of the nine field names is a key of the object (the empty object \<open>{}\<close> is the
    first case), validation succeeds with \<open>shop_name\<close>, \<open>shop_address\<close>, \<open>date\<close>, \<open>currency\<close>
    and \<open>remark\<close> empty, \<open>expense_category\<close> \<open>Misc\<close>, \<open>total_amount\<close> 0, no items and
    \<open>expense_type\<close> \<open>Standard\<close>;
  \<^item> when validation succeeds, each field whose key is absent holds its default;
  \<^item> when validation fails, no error is of type \<open>missing\<close>, and every error lies under a key
    that is present in the object: an absent key never fails.
\<close>

theorem Expense_no_field_required:
  "(map_of kvs ''shop_name'' = None \<and> map_of kvs ''shop_address'' = None
      \<and> map_of kvs ''date'' = None \<and> map_of kvs ''expense_category'' = None
      \<and> map_of kvs ''currency'' = None \<and> map_of kvs ''total_amount'' = None
      \<and> map_of kvs ''items'' = None \<and> map_of kvs ''expense_type'' = None
      \<and> map_of kvs ''remark'' = None
    \<longrightarrow> validate_Expense w (JObj kvs) =
          Inr \<lparr>shop_name = '''', shop_address = '''', date = '''',
               expense_category = ''Misc'', currency = '''', total_amount = PyInt 0,
               items = [], expense_type = Standard, remark = ''''\<rparr>)
   \<and> (validate_Expense w (JObj kvs) = Inr e \<longrightarrow>
        (map_of kvs ''shop_name'' = None \<longrightarrow> shop_name e = '''')
      \<and> (map_of kvs ''shop_address'' = None \<longrightarrow> shop_address e = '''')
      \<and> (map_of kvs ''date'' = None \<longrightarrow> date e = '''')
      \<and> (map_of kvs ''expense_category'' = None \<longrightarrow> expense_category e = ''Misc'')
      \<and> (map_of kvs ''currency'' = None \<longrightarrow> currency e = '''')
      \<and> (map_of kvs ''total_amount'' = None \<longrightarrow> total_amount e = PyInt 0)
      \<and> (map_of kvs ''items'' = None \<longrightarrow> items e = [])
      \<and> (map_of kvs ''expense_type'' = None \<longrightarrow> expense_type e = Standard)
      \<and> (map_of kvs ''remark'' = None \<longrightarrow> remark e = ''''))
   \<and> (validate_Expense w (JObj kvs) = Inl es \<longrightarrow>
        (\<forall>p t. (p, t) \<in> set es \<longrightarrow>
           t \<noteq> ''missing'' \<and> (\<exists>k rest v. p = Key k # rest \<and> map_of kvs k = Some v)))"
proof (intro conjI impI allI)
  assume "map_of kvs ''shop_name'' = None \<and> map_of kvs ''shop_address'' = None
      \<and> map_of kvs ''date'' = None \<and> map_of kvs ''expense_category'' = None
      \<and> map_of kvs ''currency'' = None \<and> map_of kvs ''total_amount'' = None
      \<and> map_of kvs ''items'' = None \<and> map_of kvs ''expense_type'' = None
      \<and> map_of kvs ''remark'' = None"
  then show "validate_Expense w (JObj kvs) =
          Inr \<lparr>shop_name = '''', shop_address = '''', date = '''',
               expense_category = ''Misc'', currency = '''', total_amount = PyInt 0,
               items = [], expense_type = Standard, remark = ''''\<rparr>"
    by (simp add: validate_Expense_def)
next
  fix p t
  assume "validate_Expense w (JObj kvs) = Inl es" and "(p, t) \<in> set es"
  then have "(p, t) \<in> errs (validate_Expense w (JObj kvs))" by simp
  from errs_validate_Expense [OF this]
  show "t \<noteq> ''missing''" and "\<exists>k rest v. p = Key k # rest \<and> map_of kvs k = Some v"
    by simp_all
qed (auto dest: validate_Expense_fields)

text \<open>
  The empty object, and an object with two keys of which none is a field of \<open>Expense\<close>:
  both validate to the defaults.
\<close>

theorem Expense_no_field_required_witness:
  "validate_Expense (sample_runtime None \<lparr>status_code = 200, body = ''[]''\<rparr>) (JObj [])
     = Inr \<lparr>shop_name = '''', shop_address = '''', date = '''', expense_category = ''Misc'',
            currency = '''', total_amount = PyInt 0, items = [], expense_type = Standard,
            remark = ''''\<rparr>
   \<and> validate_Expense (sample_runtime None \<lparr>status_code = 200, body = ''[]''\<rparr>)
       (JObj [(''note'', JNull), (''vendor'', JStr ''Acme'')])
     = Inr \<lparr>shop_name = '''', shop_address = '''', date = '''', expense_category = ''Misc'',
            currency = '''', total_amount = PyInt 0, items = [], expense_type = Standard,
            remark = ''''\<rparr>"
proof
  show "validate_Expense (sample_runtime None \<lparr>status_code = 200, body = ''[]''\<rparr>) (JObj [])
     = Inr \<lparr>shop_name = '''', shop_address = '''', date = '''', expense_category = ''Misc'',
            currency = '''', total_amount = PyInt 0, items = [], expense_type = Standard,
            remark = ''''\<rparr>"
    using Expense_no_field_required
      [of "[]" "sample_runtime None \<lparr>status_code = 200, body = ''[]''\<rparr>", THEN conjunct1]
    by simp
  show "validate_Expense (sample_runtime None \<lparr>status_code = 200, body = ''[]''\<rparr>)
       (JObj [(''note'', JNull), (''vendor'', JStr ''Acme'')])
     = Inr \<lparr>shop_name = '''', shop_address = '''', date = '''', expense_category = ''Misc'',
            currency = '''', total_amount = PyInt 0, items = [], expense_type = Standard,
            remark = ''''\<rparr>"
    using Expense_no_field_required
      [of "[(''note'', JNull), (''vendor'', JStr ''Acme'')]"
          "sample_runtime None \<lparr>status_code = 200, body = ''[]''\<rparr>", THEN conjunct1]
    by simp
qed

subsection \<open>The file name of an image\<close>

text \<open>
  Claim C8, as the code has it. \<open>image_file_name\<close> is a required field of type \<open>str\<close> with
  no constraint on its length: a validated \<open>ExpenseImage\<close> comes from a JSON object whose
  key \<open>image_file_name\<close> holds a string, and carries exactly that string, which may be
  empty.
\<close>

theorem ExpenseImage_file_name_from_payload:
  assumes "validate_ExpenseImage v = Inr img"
  shows "\<exists>kvs. v = JObj kvs
           \<and> map_of kvs ''image_file_name'' = Some (JStr (image_file_name img))"
proof (cases v)
  case (JObj kvs)
  with assms have *: "ap (ap (Inr (\<lambda>t n. \<lparr>image_type = t, image_file_name = n\<rparr>))
                (required_field kvs ''image_type'' ExpenseImageType_validator))
             (required_field kvs ''image_file_name'' str_validator) = Inr img"
    by (simp add: validate_ExpenseImage_def)
  then obtain t n where t: "required_field kvs ''image_type'' ExpenseImageType_validator = Inr t"
    and n: "required_field kvs ''image_file_name'' str_validator = Inr n"
    by (auto simp add: ap_def split: sum.splits)
  with * have "img = \<lparr>image_type = t, image_file_name = n\<rparr>" by simp
  moreover from n have "map_of kvs ''image_file_name'' = Some (JStr n)"
    by (auto simp add: required_field_def at_loc_def str_validator_def
        split: option.splits json.splits sum.splits)
  ultimately show ?thesis using JObj by simp
qed (use assms in \<open>simp_all add: validate_ExpenseImage_def\<close>)

theorem ExpenseImage_file_name_from_payload_witness:
  "validate_ExpenseImage
     (JObj [(''image_type'', JStr ''Invoice''), (''image_file_name'', JStr ''a.png'')]
        :: real json)
     = Inr \<lparr>image_type = Invoice, image_file_name = ''a.png''\<rparr>
   \<and> map_of [(''image_type'', JStr ''Invoice''),
             (''image_file_name'', JStr ''a.png'' :: real json)]
        ''image_file_name'' = Some (JStr ''a.png'')"
  using ExpenseImage_file_name_from_payload
    [of "JObj [(''image_type'', JStr ''Invoice''), (''image_file_name'', JStr ''a.png'')]
           :: real json"
        "\<lparr>image_type = Invoice, image_file_name = ''a.png''\<rparr>"]
  by (simp add: validate_ExpenseImage_def required_field_def ExpenseImageType_validator_def
      str_validator_def)

text \<open>
  Claim C8 as stated fails: a receipt whose \<open>image_file_name\<close> is the empty string validates,
  and the validated image has an empty file name.
\<close>

theorem ExpenseImage_empty_file_name:
  "validate_ExpenseImage
     (JObj [(''image_type'', JStr ''Receipt''), (''image_file_name'', JStr '''')] :: real json)
   = Inr \<lparr>image_type = Receipt, image_file_name = ''''\<rparr>"
  by (simp add: validate_ExpenseImage_def required_field_def ExpenseImageType_validator_def
      str_validator_def)

subsection \<open>The credential\<close>

lemma client_get_unset:
  "environ w ''EXPENSELM_API_KEY'' = None \<Longrightarrow>
   client_get w u p = ([], Inl (ValueError ''EXPENSELM_API_KEY is not set''))"
  by (simp add: client_get_def get_headers_def get_api_key_def)

text \<open>
  Claim C4. When the environment variable \<open>EXPENSELM_API_KEY\<close> is unset, each of the six
  operations raises the \<open>ValueError\<close> of \<open>_get_api_key\<close> and has sent no request.
\<close>

theorem credential_unset_no_request:
  assumes "environ w ''EXPENSELM_API_KEY'' = None"
  shows "get_latest_expenses w skip limit from_date to_date text_input
           = ([], Inl (ValueError ''EXPENSELM_API_KEY is not set''))
       \<and> get_expense_by_id w expense_id
           = ([], Inl (ValueError ''EXPENSELM_API_KEY is not set''))
       \<and> get_latest_subscription_expenses w skip limit from_date to_date text_input
           = ([], Inl (ValueError ''EXPENSELM_API_KEY is not set''))
       \<and> get_expense_summary_by_month_by_currency w fd td
           = ([], Inl (ValueError ''EXPENSELM_API_KEY is not set''))
       \<and> get_expense_summary_by_category_by_currency w fd td
           = ([], Inl (ValueError ''EXPENSELM_API_KEY is not set''))
       \<and> get_expense_summary_by_subscription_by_currency w fd td
           = ([], Inl (ValueError ''EXPENSELM_API_KEY is not set''))"
  using assms
  by (simp add: get_latest_expenses_def get_expense_by_id_def
      get_latest_subscription_expenses_def get_expense_summary_by_month_by_currency_def
      get_expense_summary_by_category_by_currency_def
      get_expense_summary_by_subscription_by_currency_def client_get_unset Let_def)

text \<open>
  In a world with no key whose remote would answer any request with an empty list, all six
  operations fail and the list of sent requests is empty.
\<close>

theorem credential_unset_no_request_witness:
  "environ (sample_runtime None \<lparr>status_code = 200, body = ''[]''\<rparr>) ''EXPENSELM_API_KEY''
     = None
   \<and> get_latest_expenses (sample_runtime None \<lparr>status_code = 200, body = ''[]''\<rparr>)
       0 10 None None None = ([], Inl (ValueError ''EXPENSELM_API_KEY is not set''))
   \<and> get_expense_by_id (sample_runtime None \<lparr>status_code = 200, body = ''[]''\<rparr>) ''abc123''
       = ([], Inl (ValueError ''EXPENSELM_API_KEY is not set''))
   \<and> get_latest_subscription_expenses
       (sample_runtime None \<lparr>status_code = 200, body = ''[]''\<rparr>) 0 10 None None None
       = ([], Inl (ValueError ''EXPENSELM_API_KEY is not set''))
   \<and> get_expense_summary_by_month_by_currency
       (sample_runtime None \<lparr>status_code = 200, body = ''[]''\<rparr>) ''2024-01-01'' ''2024-03-31''
       = ([], Inl (ValueError ''EXPENSELM_API_KEY is not set''))
   \<and> get_expense_summary_by_category_by_currency
       (sample_runtime None \<lparr>status_code = 200, body = ''[]''\<rparr>) ''2024-01-01'' ''2024-03-31''
       = ([], Inl (ValueError ''EXPENSELM_API_KEY is not set''))
   \<and> get_expense_summary_by_subscription_by_currency
       (sample_runtime None \<lparr>status_code = 200, body = ''[]''\<rparr>) ''2024-01-01'' ''2024-03-31''
       = ([], Inl (ValueError ''EXPENSELM_API_KEY is not set''))"
  using credential_unset_no_request
    [of "sample_runtime None \<lparr>status_code = 200, body = ''[]''\<rparr>" 0 10 None None None
        "''abc123''" "''2024-01-01''" "''2024-03-31''"]
  by (simp add: sample_runtime_def)

subsection \<open>The query of the two listing operations\<close>

lemma set_update_subset: "set (AList.update k v al) \<subseteq> insert (k, v) (set al)"
  by (induction al) auto

lemma map_of_set_if_truthy:
  "map_of (set_if_truthy k v d) k' =
     (if k' = k \<and> v \<noteq> None \<and> v \<noteq> Some [] then map_option QStr v else map_of d k')"
  by (cases v) (simp_all add: set_if_truthy_def update_conv')

lemma keys_set_if_truthy:
  "set (map fst (set_if_truthy k v d)) \<subseteq> insert k (set (map fst d))"
proof (cases v)
  case None
  then show ?thesis by (auto simp add: set_if_truthy_def)
next
  case (Some s)
  have "fst ` set (AList.update k (QStr s) d) \<subseteq> fst ` insert (k, QStr s) (set d)"
    by (rule image_mono) (rule set_update_subset)
  with Some show ?thesis by (auto simp add: set_if_truthy_def)
qed

lemma distinct_set_if_truthy:
  "distinct (map fst d) \<Longrightarrow> distinct (map fst (set_if_truthy k v d))"
  by (cases v) (simp_all add: set_if_truthy_def distinct_update)

lemma values_set_if_truthy:
  assumes "QStr [] \<notin> snd ` set d"
  shows "QStr [] \<notin> snd ` set (set_if_truthy k v d)"
proof (cases v)
  case None
  with assms show ?thesis by (simp add: set_if_truthy_def)
next
  case (Some s)
  show ?thesis
  proof (cases "s = []")
    case True
    with Some assms show ?thesis by (simp add: set_if_truthy_def)
  next
    case False
    have "snd ` set (AList.update k (QStr s) d) \<subseteq> snd ` insert (k, QStr s) (set d)"
      by (rule image_mono) (rule set_update_subset)
    with False assms have "QStr [] \<notin> snd ` set (AList.update k (QStr s) d)"
      by auto
    with Some False show ?thesis by (simp add: set_if_truthy_def)
  qed
qed

lemma sent_latest:
  "environ w ''EXPENSELM_API_KEY'' = Some key \<Longrightarrow>
   fst (get_latest_expenses w skip limit from_date to_date text_input) =
     [\<lparr>url = EXPENSELM_API_ENDPOINT @ ''/expenses/'', headers = [(''EXPENSELM_API_KEY'', key)],
       params = Some (search_query skip limit from_date to_date text_input)\<rparr>]"
  by (simp add: get_latest_expenses_def client_get_def get_headers_def get_api_key_def
      search_query_def Let_def split: sum.splits)

lemma sent_subscription:
  "environ w ''EXPENSELM_API_KEY'' = Some key \<Longrightarrow>
   fst (get_latest_subscription_expenses w skip limit from_date to_date text_input) =
     [\<lparr>url = EXPENSELM_API_ENDPOINT @ ''/subscriptions/'',
       headers = [(''EXPENSELM_API_KEY'', key)],
       params = Some (search_query skip limit from_date to_date text_input)\<rparr>]"
  by (simp add: get_latest_subscription_expenses_def client_get_def get_headers_def
      get_api_key_def search_query_def Let_def split: sum.splits)

lemma search_query_lookup:
  "map_of (search_query skip limit from_date to_date text_input) ''skip'' = Some (QInt skip)"
  "map_of (search_query skip limit from_date to_date text_input) ''limit'' = Some (QInt limit)"
  "map_of (search_query skip limit from_date to_date text_input) ''from_date'' =
     (case from_date of None \<Rightarrow> None | Some s \<Rightarrow> if s = [] then None else Some (QStr s))"
  "map_of (search_query skip limit from_date to_date text_input) ''to_date'' =
     (case to_date of None \<Rightarrow> None | Some s \<Rightarrow> if s = [] then None else Some (QStr s))"
  "map_of (search_query skip limit from_date to_date text_input) ''text_input'' =
     (case text_input of None \<Rightarrow> None | Some s \<Rightarrow> if s = [] then None else Some (QStr s))"
  by (simp_all add: search_query_def map_of_set_if_truthy split: option.splits)

lemma keys_chain:
  "set (map fst (set_if_truthy k3 v3 (set_if_truthy k2 v2 (set_if_truthy k1 v1 [(a, x), (b, y)]))))
     \<subseteq> {a, b, k1, k2, k3}"
  using keys_set_if_truthy [of k3 v3 "set_if_truthy k2 v2 (set_if_truthy k1 v1 [(a, x), (b, y)])"]
    keys_set_if_truthy [of k2 v2 "set_if_truthy k1 v1 [(a, x), (b, y)]"]
    keys_set_if_truthy [of k1 v1 "[(a, x), (b, y)]"]
  by (simp del: set_map) blast

lemma search_query_keys:
  "set (map fst (search_query skip limit from_date to_date text_input))
     \<subseteq> {''skip'', ''limit'', ''from_date'', ''to_date'', ''text_input''}"
  unfolding search_query_def by (rule keys_chain)

lemma search_query_distinct:
  "distinct (map fst (search_query skip limit from_date to_date text_input))"
  by (simp add: search_query_def distinct_set_if_truthy)

lemma search_query_no_empty:
  "QStr [] \<notin> snd ` set (search_query skip limit from_date to_date text_input)"
  by (simp add: search_query_def values_set_if_truthy)

text \<open>
  Claim C5, as the code has it. With the credential set, a limit in [1,100] and a skip of at
  least 0, \<open>get_latest_expenses\<close> sends one request, and its query holds \<open>skip\<close> and \<open>limit\<close>
  with the values given, and each of \<open>from_date\<close>, \<open>to_date\<close> and \<open>text_input\<close> exactly when
  that argument is a non-empty string (with that string as its value); it holds no other
  key, no key twice, and no empty string as a value.
\<close>

theorem query_parameters:
  assumes "environ w ''EXPENSELM_API_KEY'' = Some key"
    and "1 \<le> limit" and "limit \<le> 100" and "0 \<le> skip"
  shows "\<exists>q. map params (fst (get_latest_expenses w skip limit from_date to_date text_input))
               = [Some q]
     \<and> map_of q ''skip'' = Some (QInt skip)
     \<and> map_of q ''limit'' = Some (QInt limit)
     \<and> map_of q ''from_date'' =
         (case from_date of None \<Rightarrow> None | Some s \<Rightarrow> if s = [] then None else Some (QStr s))
     \<and> map_of q ''to_date'' =
         (case to_date of None \<Rightarrow> None | Some s \<Rightarrow> if s = [] then None else Some (QStr s))
     \<and> map_of q ''text_input'' =
         (case text_input of None \<Rightarrow> None | Some s \<Rightarrow> if s = [] then None else Some (QStr s))
     \<and> set (map fst q) \<subseteq> {''skip'', ''limit'', ''from_date'', ''to_date'', ''text_input''}
     \<and> distinct (map fst q)
     \<and> QStr [] \<notin> snd ` set q"
proof -
  let ?q = "search_query skip limit from_date to_date text_input"
  have "map params (fst (get_latest_expenses w skip limit from_date to_date text_input))
          = [Some ?q]"
    using assms(1) by (simp add: sent_latest)
  moreover note search_query_lookup [of skip limit from_date to_date text_input]
    search_query_keys [of skip limit from_date to_date text_input]
    search_query_distinct [of skip limit from_date to_date text_input]
    search_query_no_empty [of skip limit from_date to_date text_input]
  ultimately show ?thesis
    by (intro exI [of _ ?q] conjI)
qed

text \<open>
  Skip 20, limit 50, a start date, no end date and an empty search text: the query has the
  start date and neither of the other two.
\<close>

theorem query_parameters_witness:
  "map params (fst (get_latest_expenses
       (sample_runtime (Some ''secret'') \<lparr>status_code = 200, body = ''[]''\<rparr>)
       20 50 (Some ''2024-01-01'') None (Some '''')))
   = [Some [(''skip'', QInt 20), (''limit'', QInt 50), (''from_date'', QStr ''2024-01-01'')]]"
  using query_parameters
    [of "sample_runtime (Some ''secret'') \<lparr>status_code = 200, body = ''[]''\<rparr>" "''secret''"
        50 20 "Some ''2024-01-01''" None "Some ''''"]
  by (simp add: get_latest_expenses_def client_get_def get_headers_def get_api_key_def
      sample_runtime_def set_if_truthy_def Let_def)

text \<open>
  Claim C5 as stated fails: \<open>from_date\<close> supplied as the empty string is supplied and not
  null, and the query sent has only \<open>skip\<close> and \<open>limit\<close>.
\<close>

theorem empty_from_date_is_dropped:
  "get_latest_expenses (sample_runtime (Some ''secret'') \<lparr>status_code = 200, body = ''[]''\<rparr>)
     0 10 (Some '''') None None
   = ([\<lparr>url = ''https://api.expenselm.ai/expenses/'',
        headers = [(''EXPENSELM_API_KEY'', ''secret'')],
        params = Some [(''skip'', QInt 0), (''limit'', QInt 10)]\<rparr>], Inr [])"
  by (simp add: get_latest_expenses_def client_get_def get_headers_def get_api_key_def
      sample_runtime_def sample_loads_def response_json_def validate_python_def
      list_validator_def raise_validation_def set_if_truthy_def EXPENSELM_API_ENDPOINT_def
      Let_def)

text \<open>
  Claim C10. With the credential set, \<open>get_latest_expenses\<close> and
  \<open>get_latest_subscription_expenses\<close> send one request for every integer \<open>skip\<close>, negative
  ones included, and the query of that request holds \<open>skip\<close> unchanged.
\<close>

theorem skip_is_forwarded:
  assumes "environ w ''EXPENSELM_API_KEY'' = Some key"
  shows "(\<exists>q. map params (fst (get_latest_expenses w skip limit from_date to_date text_input))
                = [Some q] \<and> map_of q ''skip'' = Some (QInt skip))
       \<and> (\<exists>q. map params
                  (fst (get_latest_subscription_expenses w skip limit from_date to_date text_input))
                = [Some q] \<and> map_of q ''skip'' = Some (QInt skip))"
  using assms
  by (simp add: sent_latest sent_subscription search_query_lookup)

theorem skip_is_forwarded_witness:
  "map params (fst (get_latest_expenses
       (sample_runtime (Some ''secret'') \<lparr>status_code = 200, body = ''[]''\<rparr>)
       (- 7) 10 None None None))
     = [Some [(''skip'', QInt (- 7)), (''limit'', QInt 10)]]
   \<and> map params (fst (get_latest_subscription_expenses
       (sample_runtime (Some ''secret'') \<lparr>status_code = 200, body = ''[]''\<rparr>)
       (- 7) 10 None None None))
     = [Some [(''skip'', QInt (- 7)), (''limit'', QInt 10)]]"
  using skip_is_forwarded
    [of "sample_runtime (Some ''secret'') \<lparr>status_code = 200, body = ''[]''\<rparr>" "''secret''"
        "- 7" 10 None None None]
  by (simp add: get_latest_expenses_def get_latest_subscription_expenses_def client_get_def
      get_headers_def get_api_key_def sample_runtime_def set_if_truthy_def Let_def)

subsection \<open>What the listing operations do with a limit out of range\<close>

text \<open>
  Claim C1, evaluated on the code. With the credential set, \<open>get_latest_expenses\<close> called
  with the limit 0, and with the limit 101, sends its request with that limit in the query
  and returns what the remote answers (here the empty list): nothing is validated before
  the request. The request model of the source, \<open>ExpenseSearchRequest\<close>, rejects both
  limits, and no operation constructs it.
\<close>

theorem limit_out_of_range_is_sent:
  "get_latest_expenses (sample_runtime (Some ''secret'') \<lparr>status_code = 200, body = ''[]''\<rparr>)
     0 0 None None None
   = ([\<lparr>url = ''https://api.expenselm.ai/expenses/'',
        headers = [(''EXPENSELM_API_KEY'', ''secret'')],
        params = Some [(''skip'', QInt 0), (''limit'', QInt 0)]\<rparr>], Inr [])
   \<and> get_latest_expenses (sample_runtime (Some ''secret'') \<lparr>status_code = 200, body = ''[]''\<rparr>)
     0 101 None None None
   = ([\<lparr>url = ''https://api.expenselm.ai/expenses/'',
        headers = [(''EXPENSELM_API_KEY'', ''secret'')],
        params = Some [(''skip'', QInt 0), (''limit'', QInt 101)]\<rparr>], Inr [])
   \<and> ExpenseSearchRequest 0 0 None (None :: unit option) None
       = Inl [([Key ''limit''], ''greater_than'')]
   \<and> ExpenseSearchRequest 0 101 None (None :: unit option) None
       = Inl [([Key ''limit''], ''less_than_equal'')]"
  by (simp add: get_latest_expenses_def client_get_def get_headers_def get_api_key_def
      sample_runtime_def sample_loads_def response_json_def validate_python_def
      list_validator_def raise_validation_def set_if_truthy_def EXPENSELM_API_ENDPOINT_def
      ExpenseSearchRequest_def ap_def Let_def)

subsection \<open>Retrieval of one expense\<close>

text \<open>
  Claim C3, evaluated on the code. With the credential set, \<open>get_expense_by_id\<close> sends one
  GET to \<open>/expenses/{id}\<close> with no query parameters. When the body of the response is a
  JSON object, whatever its keys, \<open>r.json()\<close> is a dict, \<open>model_validate_json\<close> receives that
  dict where it takes JSON text, and the operation fails with the validation error
  \<open>json_type\<close>: no \<open>ExpenseImageData\<close> is returned.
\<close>

theorem get_expense_by_id_rejects_object_body:
  assumes "environ w ''EXPENSELM_API_KEY'' = Some key"
    and "remote w = (\<lambda>req. Inr r)"
    and "json_loads w (body r) = Some (JObj kvs)"
  shows "get_expense_by_id w expense_id =
           ([\<lparr>url = EXPENSELM_API_ENDPOINT @ ''/expenses/'' @ expense_id,
              headers = [(''EXPENSELM_API_KEY'', key)], params = None\<rparr>],
            Inl (ValidationError [([], ''json_type'')]))"
  using assms
  by (simp add: get_expense_by_id_def client_get_def get_headers_def get_api_key_def
      response_json_def model_validate_json_def Let_def)

text \<open>The body \<open>{}\<close>, which conforms to the \<open>ExpenseImageData\<close> schema, with status 200.\<close>

theorem get_expense_by_id_rejects_object_body_witness:
  "get_expense_by_id (sample_runtime (Some ''secret'') \<lparr>status_code = 200, body = ''{}''\<rparr>)
     ''abc123''
   = ([\<lparr>url = ''https://api.expenselm.ai/expenses/abc123'',
        headers = [(''EXPENSELM_API_KEY'', ''secret'')], params = None\<rparr>],
      Inl (ValidationError [([], ''json_type'')]))"
  using get_expense_by_id_rejects_object_body
    [of "sample_runtime (Some ''secret'') \<lparr>status_code = 200, body = ''{}''\<rparr>" "''secret''"
        "\<lparr>status_code = 200, body = ''{}''\<rparr>" "[]" "''abc123''"]
  by (simp add: sample_runtime_def sample_loads_def EXPENSELM_API_ENDPOINT_def)

subsection \<open>The status code of the response\<close>

lemma with_status_fields [simp]:
  "environ (with_status s w) = environ w"
  "json_loads (with_status s w) = json_loads w"
  "from_json (with_status s w) = from_json w"
  "float_of_int (with_status s w) = float_of_int w"
  "float_of_str (with_status s w) = float_of_str w"
  by (simp_all add: with_status_def)

lemma float_validator_with_status [simp]:
  "float_validator (with_status s w) = float_validator w"
  by (rule ext) (simp add: float_validator_def split: json.splits)

lemma validate_ExpenseItem_with_status [simp]:
  "validate_ExpenseItem (with_status s w) = validate_ExpenseItem w"
  by (rule ext) (simp add: validate_ExpenseItem_def split: json.splits)

lemma validate_Expense_with_status [simp]:
  "validate_Expense (with_status s w) = validate_Expense w"
  by (rule ext) (simp add: validate_Expense_def split: json.splits)

lemma validate_ExpenseImageData_with_status [simp]:
  "validate_ExpenseImageData (with_status s w) = validate_ExpenseImageData w"
  by (rule ext) (simp add: validate_ExpenseImageData_def split: json.splits)

lemma validate_ExpenseRecord_with_status [simp]:
  "validate_ExpenseRecord (with_status s w) = validate_ExpenseRecord w"
  by (rule ext) (simp add: validate_ExpenseRecord_def split: json.splits)

lemma validate_stats_with_status [simp]:
  "validate_MonthCurAmtStatItem (with_status s w) = validate_MonthCurAmtStatItem w"
  "validate_CategoryCurAmtStatItem (with_status s w) = validate_CategoryCurAmtStatItem w"
  "validate_SubscriptionCurAmtStatItem (with_status s w) = validate_SubscriptionCurAmtStatItem w"
  by (rule ext, simp add: validate_MonthCurAmtStatItem_def
      validate_CategoryCurAmtStatItem_def validate_SubscriptionCurAmtStatItem_def
      split: json.splits)+

lemma response_json_with_status [simp]:
  "response_json (with_status s w) (r\<lparr>status_code := s\<rparr>) = response_json w r"
  by (simp add: response_json_def)

lemma model_validate_json_with_status [simp]:
  "model_validate_json (with_status s w) f j = model_validate_json w f j"
  by (simp add: model_validate_json_def split: json.splits)






lemma raise_validation_not_status [simp]: "raise_validation r \<noteq> Inl (HTTPStatusError c b)"
  by (simp add: raise_validation_def split: sum.splits)



lemma model_validate_json_not_status [simp]:
  "model_validate_json w f j \<noteq> Inl (HTTPStatusError c b)"
  by (simp add: model_validate_json_def split: json.splits option.splits)

lemma validate_python_not_status [simp]:
  "validate_python f j \<noteq> Inl (HTTPStatusError c b)"
  by (simp add: validate_python_def)









end
